theory Spec2Isabelle
  imports Complex_Main "HOL-Library.Word"
begin

section \<open>Values of the language\<close>

text \<open>
  A JavaScript string is a sequence of UTF-16 code units.  The messages the routers send are
  constants of the source and are kept as HOL strings.
\<close>

type_synonym jsstring = "16 word list"

definition lit :: "string \<Rightarrow> jsstring" where
  "lit s = map (\<lambda>c. of_nat (of_char c)) s"

text \<open>
  \<^verbatim>\<open>String.prototype.trim\<close> removes the code units of the ECMAScript productions WhiteSpace
  and LineTerminator from both ends: TAB, LF, VT, FF, CR, SP, NBSP, U+1680, U+2000 to U+200A,
  U+2028, U+2029, U+202F, U+205F, U+3000 and U+FEFF.
\<close>

definition isWhiteSpace :: "16 word \<Rightarrow> bool" where
  "isWhiteSpace c \<longleftrightarrow>
     c = 0x0009 \<or> c = 0x000A \<or> c = 0x000B \<or> c = 0x000C \<or> c = 0x000D \<or> c = 0x0020 \<or>
     c = 0x00A0 \<or> c = 0x1680 \<or> (0x2000 \<le> c \<and> c \<le> 0x200A) \<or> c = 0x2028 \<or> c = 0x2029 \<or>
     c = 0x202F \<or> c = 0x205F \<or> c = 0x3000 \<or> c = 0xFEFF"

definition js_trim :: "jsstring \<Rightarrow> jsstring" where
  "js_trim s = rev (dropWhile isWhiteSpace (rev (dropWhile isWhiteSpace s)))"

text \<open>
  A value of a parsed JSON request body.  \<open>JUndefined\<close> is a property that is absent;
  \<open>JObj\<close> stands for any array or object (all of them are truthy and none is a string).
  A JSON number is a finite double, kept as the rational it denotes.
\<close>

datatype jsval = JUndefined | JNull | JBool bool | JNum rat | JStr jsstring | JObj

datatype jstype = TUndefined | TObject | TBoolean | TNumber | TString

fun typeof :: "jsval \<Rightarrow> jstype" where
  "typeof JUndefined = TUndefined"
| "typeof JNull = TObject"
| "typeof (JBool b) = TBoolean"
| "typeof (JNum n) = TNumber"
| "typeof (JStr s) = TString"
| "typeof JObj = TObject"

fun truthy :: "jsval \<Rightarrow> bool" where
  "truthy JUndefined = False"
| "truthy JNull = False"
| "truthy (JBool b) = b"
| "truthy (JNum n) = (n \<noteq> 0)"
| "truthy (JStr s) = (s \<noteq> [])"
| "truthy JObj = True"

datatype jserror = SqliteError string | Error string | TypeError

text \<open>The state of a promise once it has settled.\<close>

datatype 'a promise = Resolved 'a | Rejected jserror

text \<open>
  A value of \<^verbatim>\<open>req.query\<close>: a string, an array (a repeated parameter) or a nested object.
  \<^verbatim>\<open>toString\<close> of an array joins the string forms of its elements with commas; that of an
  object is \<^verbatim>\<open>[object Object]\<close>.
\<close>

datatype qval = QStr jsstring | QArr "qval list" | QObj

fun join :: "jsstring \<Rightarrow> jsstring list \<Rightarrow> jsstring" where
  "join sep [] = []"
| "join sep [x] = x"
| "join sep (x # y # ys) = x @ sep @ join sep (y # ys)"

fun toString :: "qval \<Rightarrow> jsstring" where
  "toString (QStr s) = s"
| "toString (QArr xs) = join (lit '','') (map toString xs)"
| "toString QObj = lit ''[object Object]''"

text \<open>
  The result of \<^verbatim>\<open>Number(req.query.pageNumber)\<close>: \<open>NaN\<close> when the parameter is absent or
  is not a numeric literal, otherwise the number.  The model covers the doubles whose value
  is an integer; \<^verbatim>\<open>x || d\<close> is \<open>d\<close> when \<open>x\<close> is \<open>NaN\<close> or zero.
\<close>

datatype jsnumber = NaN | Num int

fun or_default :: "jsnumber \<Rightarrow> int \<Rightarrow> int" where
  "or_default NaN d = d"
| "or_default (Num n) d = (if n = 0 then d else n)"

text \<open>
  A number of the language is a double.  \<open>round_to_double n\<close> is the double nearest to the
  integer \<open>n\<close>, ties to the even significand of 53 bits, and \<open>None\<close> when that is beyond the
  largest double (the result is then \<^verbatim>\<open>Infinity\<close>).  \<open>ulp_exponent a\<close> is the number of low bits
  that the significand of \<open>a\<close> cannot hold.  \<open>js_times\<close> is \<^verbatim>\<open>*\<close> on two doubles with integer
  values: the rounded exact product.
\<close>

function ulp_exponent :: "nat \<Rightarrow> nat" where
  "ulp_exponent a = (if a < 9007199254740992 then 0 else Suc (ulp_exponent (a div 2)))"
  by pat_completeness auto
termination
  by (relation "measure id") auto

declare ulp_exponent.simps [simp del]

definition round_to_double :: "int \<Rightarrow> int option" where
  "round_to_double n =
     (let a = nat \<bar>n\<bar>;
          e = ulp_exponent a;
          q = a div 2 ^ e;
          r = a mod 2 ^ e;
          q' = (if 2 * r > 2 ^ e \<or> (2 * r = 2 ^ e \<and> odd q) then q + 1 else q);
          v = q' * 2 ^ e
      in if v \<ge> 2 ^ 1024 then None else Some (sgn n * int v))"

definition js_times :: "int \<Rightarrow> int \<Rightarrow> int option" where
  "js_times x y = round_to_double (x * y)"

section \<open>Data model\<close>

text \<open>
  The rows of the two tables.  Record fields share one name space, so the columns carry the
  table's initial: \<open>u_id\<close> is \<^verbatim>\<open>users.id\<close>, \<open>p_user_id\<close> is \<^verbatim>\<open>posts.user_id\<close>.
  The four address columns are nullable (\<^verbatim>\<open>string | null\<close>).
\<close>

record user =
  u_id :: jsstring
  u_name :: jsstring
  u_username :: jsstring
  u_email :: jsstring
  u_phone :: jsstring
  u_street :: "jsstring option"
  u_city :: "jsstring option"
  u_state :: "jsstring option"
  u_zipcode :: "jsstring option"

record post =
  p_id :: jsstring
  p_user_id :: jsstring
  p_title :: jsstring
  p_body :: jsstring
  p_created_at :: jsstring

text \<open>The database behind \<^verbatim>\<open>connection\<close>: each table is the list of its rows in storage order.\<close>

record store =
  users_table :: "user list"
  posts_table :: "post list"

section \<open>Requests and responses\<close>

text \<open>
  What a route handler leaves behind: the response it sent, or nothing.  \<open>Unhandled e t\<close> is
  an \<^verbatim>\<open>async\<close> handler whose promise rejected with \<open>e\<close> before any response was sent; \<open>t\<close>
  is the exception that escaped from the driver's callback, if one did.
\<close>

datatype payload =
    ErrorBody string
  | MessageBody string
  | UsersBody "user list"
  | CountBody nat
  | PostsBody "post list"
  | PostBody post
  | EmptyBody

record response =
  status :: nat
  payload :: payload

datatype outcome = Responded response | Unhandled jserror "jserror option"

section \<open>The statements\<close>

text \<open>
  The driver calls a statement's callback with an error and no result, or with no error and
  the result.  Whether a statement fails is decided outside the program, so every repository
  function takes the fault of its statement as an argument: \<open>Some e\<close> when the driver
  reports the error \<open>e\<close> (the tables are then untouched), \<open>None\<close> when the statement runs.
\<close>

text \<open>
  Modelled from the spec: \<^verbatim>\<open>selectCountOfUsersTemplate\<close> of \<^verbatim>\<open>db/users/query-templates.ts\<close>,
  which is not among the sources.  The statement counts the rows of \<^verbatim>\<open>users\<close>.
\<close>

definition run_selectCountOfUsersTemplate :: "store \<Rightarrow> nat" where
  "run_selectCountOfUsersTemplate db = length (users_table db)"

text \<open>
  Modelled from the spec: \<^verbatim>\<open>selectUsersTemplate\<close> of \<^verbatim>\<open>db/users/query-templates.ts\<close>, which is
  not among the sources.  Its parameters are the offset and the limit, in this order; it
  returns the rows of \<^verbatim>\<open>users\<close> in storage order from the offset on, at most as many as the
  limit.  As in SQLite, a negative offset is no offset and a negative limit is no limit, and
  both must be integers of 64 bits: \<open>sqlite_integer\<close> is the integer SQLite takes a bound
  double for, \<open>None\<close> when the double is \<^verbatim>\<open>Infinity\<close> or not strictly between \<open>- 2 ^ 63\<close> and
  \<open>2 ^ 63\<close>; the statement then fails with \<^verbatim>\<open>SQLITE_MISMATCH\<close>.
\<close>

definition sqlite_integer :: "int option \<Rightarrow> int option" where
  "sqlite_integer x =
     (case x of
        None \<Rightarrow> None
      | Some n \<Rightarrow>
          if - 9223372036854775808 < n \<and> n < 9223372036854775808 then Some n else None)"

definition run_selectUsersTemplate ::
  "store \<Rightarrow> int option \<Rightarrow> int option \<Rightarrow> jserror + user list" where
  "run_selectUsersTemplate db offset limit =
     (case (sqlite_integer offset, sqlite_integer limit) of
        (Some offset', Some limit') \<Rightarrow>
          (let rows = drop (nat offset') (users_table db)
           in Inr (if limit' < 0 then rows else take (nat limit') rows))
      | _ \<Rightarrow> Inl (SqliteError ''SQLITE_MISMATCH: datatype mismatch''))"

text \<open>
  Modelled from the spec: \<^verbatim>\<open>selectPostsTemplate\<close> of \<^verbatim>\<open>db/posts/query-tamplates.ts\<close>, which is
  not among the sources.  The statement returns the rows of \<^verbatim>\<open>posts\<close> whose \<^verbatim>\<open>user_id\<close> is
  the parameter, in storage order.
\<close>

definition run_selectPostsTemplate :: "store \<Rightarrow> jsstring \<Rightarrow> post list" where
  "run_selectPostsTemplate db userId = filter (\<lambda>p. p_user_id p = userId) (posts_table db)"

text \<open>
  Modelled from the spec: \<^verbatim>\<open>insertPostTemplate\<close> of \<^verbatim>\<open>db/posts/query-tamplates.ts\<close>, which is
  not among the sources.  The statement appends one row to \<^verbatim>\<open>posts\<close>, and
  \<^verbatim>\<open>this.changes\<close> is then 1; \<^verbatim>\<open>posts.id\<close> is the primary key, so a row whose id is taken
  is refused with a constraint error.
\<close>

definition run_insertPostTemplate :: "store \<Rightarrow> post \<Rightarrow> jserror option \<times> nat \<times> store" where
  "run_insertPostTemplate db row =
     (if \<exists>p \<in> set (posts_table db). p_id p = p_id row
      then (Some (SqliteError ''SQLITE_CONSTRAINT: UNIQUE constraint failed: posts.id''), 0, db)
      else (None, 1, db\<lparr>posts_table := posts_table db @ [row]\<rparr>))"

text \<open>
  Modelled from the spec: \<^verbatim>\<open>deletePostTemplate\<close> of \<^verbatim>\<open>db/posts/query-tamplates.ts\<close>, which is
  not among the sources.  The statement deletes the rows of \<^verbatim>\<open>posts\<close> whose \<^verbatim>\<open>id\<close> is the
  parameter; \<^verbatim>\<open>this.changes\<close> is the number of rows it removed.
\<close>

definition run_deletePostTemplate :: "store \<Rightarrow> jsstring \<Rightarrow> nat \<times> store" where
  "run_deletePostTemplate db postId =
     (length (filter (\<lambda>p. p_id p = postId) (posts_table db)),
      db\<lparr>posts_table := filter (\<lambda>p. p_id p \<noteq> postId) (posts_table db)\<rparr>)"

section \<open>User repository\<close>

definition formatAddress :: "user \<Rightarrow> user" where
  "formatAddress user =
     user\<lparr>u_street := Some (case u_street user of
                              None \<Rightarrow> []
                            | Some s \<Rightarrow> if s \<noteq> [] then js_trim s else []),
          u_city := Some (case u_city user of
                            None \<Rightarrow> []
                          | Some s \<Rightarrow> if s \<noteq> [] then js_trim s else []),
          u_state := Some (case u_state user of
                             None \<Rightarrow> []
                           | Some s \<Rightarrow> if s \<noteq> [] then js_trim s else []),
          u_zipcode := Some (case u_zipcode user of
                               None \<Rightarrow> []
                             | Some s \<Rightarrow> if s \<noteq> [] then js_trim s else [])\<rparr>"

text \<open>
  \<open>getUsersCount\<close> and \<open>getUsers\<close> do not return after \<^verbatim>\<open>reject(error)\<close>: the callback goes
  on to read \<^verbatim>\<open>results.count\<close> (to call \<^verbatim>\<open>results.map\<close>) of an undefined result, which
  throws a \<^verbatim>\<open>TypeError\<close> out of the callback.  Both return the settled promise and the
  exception that escaped, if any.  The error is the fault from outside or, in \<open>getUsers\<close>, the
  error of the statement itself: the offset \<^verbatim>\<open>pageNumber * pageSize\<close> is a product of doubles,
  and the statement refuses an offset or a limit that is no integer of 64 bits.
\<close>

definition getUsersCount :: "jserror option \<Rightarrow> store \<Rightarrow> nat promise \<times> jserror option" where
  "getUsersCount fault db =
     (case fault of
        Some error \<Rightarrow> (Rejected error, Some TypeError)
      | None \<Rightarrow> (Resolved (run_selectCountOfUsersTemplate db), None))"

text \<open>
  The statement of \<open>userExists\<close> is in the source:
  \<^verbatim>\<open>SELECT COUNT(*) as count FROM users WHERE id = ?\<close>.  The result row of a count is
  always there; the source still tests for it.
\<close>

definition userExists :: "jserror option \<Rightarrow> store \<Rightarrow> jsstring \<Rightarrow> bool promise" where
  "userExists fault db userId =
     (case fault of
        Some error \<Rightarrow> Rejected (Error ''Failed to verify user existence'')
      | None \<Rightarrow>
          (let results = Some (length (filter (\<lambda>u. u_id u = userId) (users_table db)))
           in Resolved (case results of Some count \<Rightarrow> count > 0 | None \<Rightarrow> False)))"

definition getUsers ::
  "jserror option \<Rightarrow> store \<Rightarrow> int \<Rightarrow> int \<Rightarrow> user list promise \<times> jserror option" where
  "getUsers fault db pageNumber pageSize =
     (case fault of
        Some error \<Rightarrow> (Rejected error, Some TypeError)
      | None \<Rightarrow>
          (case run_selectUsersTemplate db (js_times pageNumber pageSize) (Some pageSize) of
             Inl error \<Rightarrow> (Rejected error, Some TypeError)
           | Inr results \<Rightarrow>
               (let formattedResults = map formatAddress results
                in (Resolved formattedResults, None))))"

section \<open>Post repository\<close>

definition getPosts :: "jserror option \<Rightarrow> store \<Rightarrow> jsstring \<Rightarrow> post list promise" where
  "getPosts fault db userId =
     (case fault of
        Some error \<Rightarrow> Rejected error
      | None \<Rightarrow> Resolved (run_selectPostsTemplate db userId))"

text \<open>
  What \<open>createPost\<close> takes from outside the program: the result of \<^verbatim>\<open>crypto.randomUUID()\<close>
  (\<open>None\<close> when it throws), the result of \<^verbatim>\<open>new Date().toISOString()\<close>, and the fault of the
  insert statement.
\<close>

record create_env =
  randomUUID :: "jsstring option"
  toISOString :: jsstring
  insert_fault :: "jserror option"

definition createPost ::
  "create_env \<Rightarrow> store \<Rightarrow> jsstring \<Rightarrow> jsstring \<Rightarrow> jsstring \<Rightarrow> post promise \<times> store" where
  "createPost env db userId title body =
     (case randomUUID env of
        None \<Rightarrow> (Rejected (Error ''Failed to create post''), db)
      | Some uuid \<Rightarrow>
          (let createdAt = toISOString env;
               row = \<lparr>p_id = uuid, p_user_id = userId, p_title = title, p_body = body,
                      p_created_at = createdAt\<rparr>;
               (error, changes, db') =
                  (case insert_fault env of
                     Some e \<Rightarrow> (Some e, 0, db)
                   | None \<Rightarrow> run_insertPostTemplate db row)
           in if error \<noteq> None then (Rejected (Error ''Failed to save post to database''), db')
              else if changes = 0 then (Rejected (Error ''Post was not created''), db')
              else (Resolved row, db')))"

definition deletePost :: "jserror option \<Rightarrow> store \<Rightarrow> jsstring \<Rightarrow> bool promise \<times> store" where
  "deletePost fault db postId =
     (case fault of
        Some error \<Rightarrow> (Rejected (Error ''Failed to delete post from database''), db)
      | None \<Rightarrow>
          (let (changes, db') = run_deletePostTemplate db postId
           in (Resolved (changes > 0), db')))"

section \<open>The users router\<close>

definition send :: "nat \<Rightarrow> payload \<Rightarrow> outcome" where
  "send code b = Responded \<lparr>status = code, payload = b\<rparr>"

text \<open>
  \<^verbatim>\<open>GET /users\<close>.  The two arguments are \<^verbatim>\<open>Number(req.query.pageNumber)\<close> and
  \<^verbatim>\<open>Number(req.query.pageSize)\<close>.  \<^verbatim>\<open>res.send\<close> without a status answers 200.
\<close>

definition get_users :: "jserror option \<Rightarrow> store \<Rightarrow> jsnumber \<Rightarrow> jsnumber \<Rightarrow> outcome" where
  "get_users fault db qPageNumber qPageSize =
     (let pageNumber = or_default qPageNumber 0;
          pageSize = or_default qPageSize 4
      in if pageNumber < 0 \<or> pageSize < 1
         then send 400 (MessageBody ''Invalid page number or page size'')
         else (case getUsers fault db pageNumber pageSize of
                 (Rejected e, thrown) \<Rightarrow> Unhandled e thrown
               | (Resolved users, thrown) \<Rightarrow> send 200 (UsersBody users)))"

text \<open>\<^verbatim>\<open>GET /users/count\<close>.\<close>

definition get_users_count :: "jserror option \<Rightarrow> store \<Rightarrow> outcome" where
  "get_users_count fault db =
     (case getUsersCount fault db of
        (Rejected e, thrown) \<Rightarrow> Unhandled e thrown
      | (Resolved count, thrown) \<Rightarrow> send 200 (CountBody count))"

section \<open>The posts router\<close>

text \<open>\<^verbatim>\<open>GET /posts\<close>.  The argument is \<^verbatim>\<open>req.query.userId\<close>, \<open>None\<close> when it is undefined.\<close>

definition get_posts :: "jserror option \<Rightarrow> store \<Rightarrow> qval option \<Rightarrow> outcome" where
  "get_posts fault db qUserId =
     (let userId = map_option toString qUserId
      in case userId of
           None \<Rightarrow> send 400 (ErrorBody ''userId is required'')
         | Some userId \<Rightarrow>
             if userId = [] then send 400 (ErrorBody ''userId is required'')
             else (case getPosts fault db userId of
                     Rejected e \<Rightarrow> Unhandled e None
                   | Resolved posts \<Rightarrow> send 200 (PostsBody posts)))"

text \<open>
  \<^verbatim>\<open>POST /posts\<close>.  The request is \<^verbatim>\<open>req.body\<close> with its three properties.  \<open>trim_method\<close> is
  the call \<^verbatim>\<open>v.trim()\<close>, which throws on a value that has no such method.  \<open>post_posts_try\<close> is
  the body of the \<^verbatim>\<open>try\<close> block: \<open>Inl\<close> the exception thrown in it, \<open>Inr\<close> the response sent.
\<close>

record post_request =
  title :: jsval
  body :: jsval
  userId :: jsval

definition trim_method :: "jsval \<Rightarrow> jserror + jsstring" where
  "trim_method v = (case v of JStr s \<Rightarrow> Inr (js_trim s) | _ \<Rightarrow> Inl TypeError)"

definition post_posts_try ::
  "jserror option \<Rightarrow> create_env \<Rightarrow> store \<Rightarrow> post_request \<Rightarrow> (jserror + outcome) \<times> store" where
  "post_posts_try exists_fault env db req =
     (if \<not> truthy (title req) \<or> typeof (title req) \<noteq> TString
      then (Inr (send 400 (ErrorBody ''Title is required and must be a string'')), db)
      else if \<not> truthy (body req) \<or> typeof (body req) \<noteq> TString
      then (Inr (send 400 (ErrorBody ''Body is required and must be a string'')), db)
      else if \<not> truthy (userId req) \<or> typeof (userId req) \<noteq> TString
      then (Inr (send 400 (ErrorBody ''User ID is required and must be a string'')), db)
      else
        (case (trim_method (title req), trim_method (body req), trim_method (userId req)) of
           (Inr trimmedTitle, Inr trimmedBody, Inr trimmedUserId) \<Rightarrow>
             if length trimmedTitle = 0
             then (Inr (send 400
                     (ErrorBody ''Title cannot be empty or contain only whitespace'')), db)
             else if length trimmedBody = 0
             then (Inr (send 400
                     (ErrorBody ''Body cannot be empty or contain only whitespace'')), db)
             else if length trimmedUserId = 0
             then (Inr (send 400
                     (ErrorBody ''User ID cannot be empty or contain only whitespace'')), db)
             else
               (case userExists exists_fault db trimmedUserId of
                  Rejected e \<Rightarrow> (Inl e, db)
                | Resolved userExistsResult \<Rightarrow>
                    if \<not> userExistsResult
                    then (Inr (send 404 (ErrorBody ''User not found'')), db)
                    else
                      (case createPost env db trimmedUserId trimmedTitle trimmedBody of
                         (Rejected e, db') \<Rightarrow> (Inl e, db')
                       | (Resolved newPost, db') \<Rightarrow> (Inr (send 201 (PostBody newPost)), db')))
         | _ \<Rightarrow> (Inl TypeError, db)))"

definition post_posts ::
  "jserror option \<Rightarrow> create_env \<Rightarrow> store \<Rightarrow> post_request \<Rightarrow> outcome \<times> store" where
  "post_posts exists_fault env db req =
     (case post_posts_try exists_fault env db req of
        (Inl error, db') \<Rightarrow> (send 500 (ErrorBody ''Internal server error''), db')
      | (Inr sent, db') \<Rightarrow> (sent, db'))"

text \<open>
  \<^verbatim>\<open>DELETE /posts/:id\<close>.  The argument \<open>id_param\<close> is \<^verbatim>\<open>req.params.id\<close>; a route parameter is a string,
  so the test \<^verbatim>\<open>typeof id !== 'string'\<close> is never true.
\<close>

definition delete_posts_try ::
  "jserror option \<Rightarrow> store \<Rightarrow> jsstring \<Rightarrow> (jserror + outcome) \<times> store" where
  "delete_posts_try fault db id_param =
     (if id_param = [] \<or> length (js_trim id_param) = 0
      then (Inr (send 400 (ErrorBody ''Post ID is required'')), db)
      else
        (let trimmedId = js_trim id_param
         in case deletePost fault db trimmedId of
              (Rejected e, db') \<Rightarrow> (Inl e, db')
            | (Resolved deleted, db') \<Rightarrow>
                if \<not> deleted
                then (Inr (send 404 (ErrorBody ''Post not found'')), db')
                else (Inr (send 204 EmptyBody), db')))"

definition delete_posts :: "jserror option \<Rightarrow> store \<Rightarrow> jsstring \<Rightarrow> outcome \<times> store" where
  "delete_posts fault db id_param =
     (case delete_posts_try fault db id_param of
        (Inl error, db') \<Rightarrow> (send 500 (ErrorBody ''Internal server error''), db')
      | (Inr sent, db') \<Rightarrow> (sent, db'))"

section \<open>The specification's wording\<close>

text \<open>
  The definitions of this section follow the words of the specification, not the source; the
  theorems below compare them with the functions above.

  An address field read from storage: null becomes the empty string, any other value is
  trimmed.
\<close>

definition normalize_field :: "jsstring option \<Rightarrow> jsstring" where
  "normalize_field f = (case f of None \<Rightarrow> [] | Some s \<Rightarrow> js_trim s)"

text \<open>
  The validation pipeline of \<^verbatim>\<open>POST /posts\<close>, step by step, over the test \<open>refused\<close> that
  steps 1 to 3 apply to a field.  The specification words that test as "absent or not a
  string" (\<open>absent_or_not_string\<close>); the source also refuses the empty string there
  (\<open>absent_empty_or_not_string\<close>).
\<close>

definition string_of :: "jsval \<Rightarrow> jsstring" where
  "string_of v = (case v of JStr s \<Rightarrow> s | _ \<Rightarrow> [])"

definition absent_or_not_string :: "jsval \<Rightarrow> bool" where
  "absent_or_not_string v \<longleftrightarrow> v = JUndefined \<or> typeof v \<noteq> TString"

definition absent_empty_or_not_string :: "jsval \<Rightarrow> bool" where
  "absent_empty_or_not_string v \<longleftrightarrow> v = JUndefined \<or> v = JStr [] \<or> typeof v \<noteq> TString"

definition spec_post_posts ::
  "(jsval \<Rightarrow> bool) \<Rightarrow> jserror option \<Rightarrow> create_env \<Rightarrow> store \<Rightarrow> post_request
     \<Rightarrow> outcome \<times> store" where
  "spec_post_posts refused exists_fault env db req =
     (if refused (title req)
      then (send 400 (ErrorBody ''Title is required and must be a string''), db)
      else if refused (body req)
      then (send 400 (ErrorBody ''Body is required and must be a string''), db)
      else if refused (userId req)
      then (send 400 (ErrorBody ''User ID is required and must be a string''), db)
      else
        (let trimmedTitle = js_trim (string_of (title req));
             trimmedBody = js_trim (string_of (body req));
             trimmedUserId = js_trim (string_of (userId req))
         in if trimmedTitle = []
            then (send 400 (ErrorBody ''Title cannot be empty or contain only whitespace''), db)
            else if trimmedBody = []
            then (send 400 (ErrorBody ''Body cannot be empty or contain only whitespace''), db)
            else if trimmedUserId = []
            then (send 400
                    (ErrorBody ''User ID cannot be empty or contain only whitespace''), db)
            else
              (case userExists exists_fault db trimmedUserId of
                 Rejected e \<Rightarrow> (send 500 (ErrorBody ''Internal server error''), db)
               | Resolved found \<Rightarrow>
                   if \<not> found then (send 404 (ErrorBody ''User not found''), db)
                   else
                     (case createPost env db trimmedUserId trimmedTitle trimmedBody of
                        (Rejected e, db') \<Rightarrow>
                          (send 500 (ErrorBody ''Internal server error''), db')
                      | (Resolved created, db') \<Rightarrow> (send 201 (PostBody created), db')))))"

section \<open>Example data\<close>

text \<open>
  A store of three users and two posts, a store with the user ids \<^verbatim>\<open>" u1"\<close> and \<^verbatim>\<open>"u1"\<close>, and
  an environment in which the insert statement runs.
\<close>

definition example_user :: "string \<Rightarrow> user" where
  "example_user i =
     \<lparr>u_id = lit i, u_name = lit ''Ann'', u_username = lit ''ann'', u_email = lit ''ann@example.org'',
      u_phone = lit ''555-0100'', u_street = None, u_city = Some (lit '' Oslo ''),
      u_state = Some [], u_zipcode = Some (lit ''0150'')\<rparr>"

definition example_post :: "string \<Rightarrow> string \<Rightarrow> post" where
  "example_post i u =
     \<lparr>p_id = lit i, p_user_id = lit u, p_title = lit ''Hi'', p_body = lit ''World'',
      p_created_at = lit ''2025-01-01T00:00:00.000Z''\<rparr>"

definition example_store :: store where
  "example_store =
     \<lparr>users_table = [example_user ''u1'', example_user ''u2'', example_user ''u3''],
      posts_table = [example_post ''p1'' ''u1'', example_post ''p2'' ''u2'']\<rparr>"

definition twin_store :: store where
  "twin_store = \<lparr>users_table = [example_user '' u1'', example_user ''u1''], posts_table = []\<rparr>"

definition example_env :: create_env where
  "example_env =
     \<lparr>randomUUID = Some (lit ''3f2c8a9e-5b1d-4c7e-9a40-6d2f1e8b7c55''),
      toISOString = lit ''2025-01-02T03:04:05.678Z'',
      insert_fault = None\<rparr>"

definition example_created :: "string \<Rightarrow> string \<Rightarrow> string \<Rightarrow> post" where
  "example_created u t b =
     \<lparr>p_id = lit ''3f2c8a9e-5b1d-4c7e-9a40-6d2f1e8b7c55'', p_user_id = lit u, p_title = lit t,
      p_body = lit b, p_created_at = lit ''2025-01-02T03:04:05.678Z''\<rparr>"

definition example_request :: "jsval \<Rightarrow> jsval \<Rightarrow> jsval \<Rightarrow> post_request" where
  "example_request t b u = \<lparr>title = t, body = b, userId = u\<rparr>"

section \<open>Evaluation of the examples\<close>

lemma send_inject [simp]: "send c b = send c' b' \<longleftrightarrow> c = c' \<and> b = b'"
  by (simp add: send_def)

lemma js_trim_Nil: "js_trim [] = []"
  by (simp add: js_trim_def)

lemma trims:
  "js_trim (lit '' Hi '') = lit ''Hi''"
  "js_trim (lit ''Hi'') = lit ''Hi''"
  "js_trim (lit ''World'') = lit ''World''"
  "js_trim (lit ''   '') = []"
  "js_trim (lit ''u1'') = lit ''u1''"
  "js_trim (lit '' u1'') = lit ''u1''"
  "js_trim (lit ''nobody'') = lit ''nobody''"
  by (simp_all add: js_trim_def isWhiteSpace_def lit_def)

lemma lits_nonempty:
  "lit '' Hi '' \<noteq> []" "lit ''Hi'' \<noteq> []" "lit ''World'' \<noteq> []" "lit ''   '' \<noteq> []"
  "lit ''u1'' \<noteq> []" "lit '' u1'' \<noteq> []" "lit ''nobody'' \<noteq> []"
  by (simp_all add: lit_def)

section \<open>Deleting a post\<close>

lemma deletePost_None:
  "deletePost None db postId =
     (Resolved (\<exists>p \<in> set (posts_table db). p_id p = postId),
      db\<lparr>posts_table := filter (\<lambda>p. p_id p \<noteq> postId) (posts_table db)\<rparr>)"
  by (auto simp: deletePost_def run_deletePostTemplate_def filter_empty_conv)

lemma deletePost_Some:
  "deletePost (Some e) db postId = (Rejected (Error ''Failed to delete post from database''), db)"
  by (simp add: deletePost_def)

lemma deletePost_frame:
  "users_table (snd (deletePost fault db postId)) = users_table db"
  "filter (\<lambda>p. p_id p \<noteq> postId) (posts_table (snd (deletePost fault db postId))) =
     filter (\<lambda>p. p_id p \<noteq> postId) (posts_table db)"
  by (cases fault; simp add: deletePost_None deletePost_Some)+

lemma deletePost_users_eq:
  "deletePost fault db postId = (r, db') \<Longrightarrow> users_table db' = users_table db"
  using deletePost_frame(1) [of fault db postId] by simp

lemma delete_posts_empty:
  "js_trim i = [] \<Longrightarrow> delete_posts fault db i = (send 400 (ErrorBody ''Post ID is required''), db)"
  by (simp add: delete_posts_def delete_posts_try_def)

lemma delete_posts_nonempty:
  "js_trim i \<noteq> [] \<Longrightarrow>
   delete_posts fault db i =
     (case deletePost fault db (js_trim i) of
        (Rejected e, db') \<Rightarrow> (send 500 (ErrorBody ''Internal server error''), db')
      | (Resolved deleted, db') \<Rightarrow>
          (if deleted then send 204 EmptyBody else send 404 (ErrorBody ''Post not found''), db'))"
  by (auto simp: delete_posts_def delete_posts_try_def js_trim_Nil Let_def
           split: prod.splits promise.splits)

lemma delete_posts_users:
  "users_table (snd (delete_posts fault db i)) = users_table db"
  by (auto simp: delete_posts_def delete_posts_try_def Let_def
      split: promise.splits prod.splits dest: deletePost_users_eq)

text \<open>
  C4.  When the delete statement runs, \<open>deletePost\<close> resolves, whatever the id: with
  \<open>True\<close> exactly when at least one row had that id, and these are the rows that are gone
  afterwards; with \<open>False\<close> when no row matched.  It rejects exactly when the driver reports a
  fault, never for an id that matches nothing.
\<close>

theorem deletePost_result:
  "(\<exists>deleted. deletePost None db postId =
        (Resolved deleted, db\<lparr>posts_table := filter (\<lambda>p. p_id p \<noteq> postId) (posts_table db)\<rparr>)
      \<and> (deleted \<longleftrightarrow> (\<exists>p \<in> set (posts_table db). p_id p = postId))
      \<and> (deleted \<longleftrightarrow>
           (\<exists>p \<in> set (posts_table db). p \<notin> set (posts_table (snd (deletePost None db postId))))))
   \<and> ((\<exists>e. fst (deletePost fault db postId) = Rejected e) \<longleftrightarrow> fault \<noteq> None)"
proof -
  have gone: "(\<exists>p \<in> set (posts_table db). p_id p = postId) \<longleftrightarrow>
      (\<exists>p \<in> set (posts_table db). p \<notin> set (posts_table (snd (deletePost None db postId))))"
    by (auto simp: deletePost_None)
  have rej: "(\<exists>e. fst (deletePost fault db postId) = Rejected e) \<longleftrightarrow> fault \<noteq> None"
    by (cases fault) (simp_all add: deletePost_None deletePost_Some)
  show ?thesis
    using gone rej deletePost_None [of db postId] by blast
qed

text \<open>
  C3.  \<^verbatim>\<open>DELETE /posts/:id\<close>: when the id is empty after trimming, the response is 400
  "Post ID is required" and the store is as before.  Otherwise \<open>deletePost\<close> is called with
  the trimmed id, and the response is 404 "Post not found" when it resolves with \<open>False\<close>,
  204 with an empty body when it resolves with \<open>True\<close>.
\<close>

theorem delete_posts_responses:
  "(js_trim i = [] \<longrightarrow>
      delete_posts fault db i = (send 400 (ErrorBody ''Post ID is required''), db)) \<and>
   (js_trim i \<noteq> [] \<longrightarrow>
      (\<forall>db'. deletePost fault db (js_trim i) = (Resolved False, db') \<longrightarrow>
         delete_posts fault db i = (send 404 (ErrorBody ''Post not found''), db')) \<and>
      (\<forall>db'. deletePost fault db (js_trim i) = (Resolved True, db') \<longrightarrow>
         delete_posts fault db i = (send 204 EmptyBody, db')))"
  by (simp add: delete_posts_empty delete_posts_nonempty)

text \<open>
  The three answers on the example store: an id of three spaces, an id no post has, and the
  id of the first post with spaces around it.
\<close>

theorem delete_posts_responses_witness:
  "delete_posts None example_store (lit ''   '') =
     (send 400 (ErrorBody ''Post ID is required''), example_store) \<and>
   delete_posts None example_store (lit ''invalid-id'') =
     (send 404 (ErrorBody ''Post not found''), example_store) \<and>
   delete_posts None example_store (lit '' p1 '') =
     (send 204 EmptyBody, example_store\<lparr>posts_table := [example_post ''p2'' ''u2'']\<rparr>)"
proof -
  have t1: "js_trim (lit ''   '') = []"
    and t2: "js_trim (lit ''invalid-id'') = lit ''invalid-id''"
    and t3: "js_trim (lit '' p1 '') = lit ''p1''"
    by (simp_all add: js_trim_def isWhiteSpace_def lit_def)
  have d2: "deletePost None example_store (lit ''invalid-id'') = (Resolved False, example_store)"
    by (simp add: deletePost_None example_store_def example_post_def lit_def)
  have d3: "deletePost None example_store (lit ''p1'') =
      (Resolved True, example_store\<lparr>posts_table := [example_post ''p2'' ''u2'']\<rparr>)"
    by (simp add: deletePost_None example_store_def example_post_def lit_def)
  have n: "lit ''invalid-id'' \<noteq> []" "lit ''p1'' \<noteq> []"
    by (simp_all add: lit_def)
  have a: "delete_posts None example_store (lit ''   '') =
     (send 400 (ErrorBody ''Post ID is required''), example_store)"
    using delete_posts_responses [of "lit ''   ''" None example_store] by (simp add: t1)
  have b: "delete_posts None example_store (lit ''invalid-id'') =
     (send 404 (ErrorBody ''Post not found''), example_store)"
    using delete_posts_responses [of "lit ''invalid-id''" None example_store]
    by (simp add: t2 d2 n)
  have c: "delete_posts None example_store (lit '' p1 '') =
     (send 204 EmptyBody, example_store\<lparr>posts_table := [example_post ''p2'' ''u2'']\<rparr>)"
    using delete_posts_responses [of "lit '' p1 ''" None example_store]
    by (simp add: t3 d3 n)
  from a b c show ?thesis by simp
qed

section \<open>Listing users\<close>

lemma formatAddress_fields:
  "u_street (formatAddress r) = Some (normalize_field (u_street r))"
  "u_city (formatAddress r) = Some (normalize_field (u_city r))"
  "u_state (formatAddress r) = Some (normalize_field (u_state r))"
  "u_zipcode (formatAddress r) = Some (normalize_field (u_zipcode r))"
  "u_id (formatAddress r) = u_id r"
  "u_name (formatAddress r) = u_name r"
  "u_username (formatAddress r) = u_username r"
  "u_email (formatAddress r) = u_email r"
  "u_phone (formatAddress r) = u_phone r"
  by (simp_all add: formatAddress_def normalize_field_def js_trim_Nil split: option.splits)

lemma round_to_double_exact:
  assumes "\<bar>n\<bar> < 9007199254740992"
  shows "round_to_double n = Some n"
proof -
  from assms have a: "nat \<bar>n\<bar> < 9007199254740992"
    by simp
  then have e: "ulp_exponent (nat \<bar>n\<bar>) = 0"
    by (subst ulp_exponent.simps) simp
  have "(9007199254740992::nat) \<le> 2 ^ 1024"
    by simp
  with a have small: "\<not> 2 ^ 1024 \<le> nat \<bar>n\<bar>"
    by linarith
  have "sgn n * \<bar>n\<bar> = n"
    by (simp add: mult_sgn_abs)
  with small show ?thesis
    by (simp add: round_to_double_def e)
qed

lemma getUsers_None:
  assumes "\<bar>pageNumber * pageSize\<bar> < 9007199254740992"
    and "- 9223372036854775808 < pageSize" and "pageSize < 9223372036854775808"
  shows "getUsers None db pageNumber pageSize =
     (Resolved (map formatAddress
        (let rows = drop (nat (pageNumber * pageSize)) (users_table db)
         in if pageSize < 0 then rows else take (nat pageSize) rows)), None)"
proof -
  from assms(1) have offset: "js_times pageNumber pageSize = Some (pageNumber * pageSize)"
    by (simp add: js_times_def round_to_double_exact)
  from assms(1) have "- 9223372036854775808 < pageNumber * pageSize"
    and "pageNumber * pageSize < 9223372036854775808"
    by linarith+
  with assms(2,3) show ?thesis
    by (simp add: getUsers_def offset run_selectUsersTemplate_def sqlite_integer_def Let_def)
qed

lemma getUsers_Resolved:
  assumes "getUsers None db pageNumber pageSize = (Resolved us, thrown)"
  shows "\<exists>rows. run_selectUsersTemplate db (js_times pageNumber pageSize) (Some pageSize) =
            Inr rows \<and> us = map formatAddress rows"
  using assms by (auto simp: getUsers_def split: sum.splits)

lemma example_page:
  "run_selectUsersTemplate example_store (js_times 0 2) (Some 2) =
     Inr [example_user ''u1'', example_user ''u2'']"
  by (simp add: run_selectUsersTemplate_def sqlite_integer_def js_times_def
        round_to_double_exact example_store_def)

text \<open>
  C5.  Every user that \<open>getUsers\<close> returns is a row of the page with its four address fields
  normalised: each is \<open>Some\<close> string, never null, the empty string where the row has null
  and the trimmed value otherwise; the other fields are those of the row.
\<close>

theorem getUsers_addresses:
  assumes "getUsers None db pageNumber pageSize = (Resolved us, thrown)"
  shows "\<exists>rows.
           run_selectUsersTemplate db (js_times pageNumber pageSize) (Some pageSize) = Inr rows \<and>
           list_all2
             (\<lambda>row u.
                u_street u = Some (normalize_field (u_street row)) \<and>
                u_city u = Some (normalize_field (u_city row)) \<and>
                u_state u = Some (normalize_field (u_state row)) \<and>
                u_zipcode u = Some (normalize_field (u_zipcode row)) \<and>
                u_id u = u_id row \<and> u_name u = u_name row \<and> u_username u = u_username row \<and>
                u_email u = u_email row \<and> u_phone u = u_phone row)
             rows us"
proof -
  from getUsers_Resolved [OF assms] obtain rows where
    rows: "run_selectUsersTemplate db (js_times pageNumber pageSize) (Some pageSize) = Inr rows"
    and us: "us = map formatAddress rows"
    by blast
  have "list_all2
             (\<lambda>row u.
                u_street u = Some (normalize_field (u_street row)) \<and>
                u_city u = Some (normalize_field (u_city row)) \<and>
                u_state u = Some (normalize_field (u_state row)) \<and>
                u_zipcode u = Some (normalize_field (u_zipcode row)) \<and>
                u_id u = u_id row \<and> u_name u = u_name row \<and> u_username u = u_username row \<and>
                u_email u = u_email row \<and> u_phone u = u_phone row)
             rows us"
    unfolding us by (simp add: list_all2_map2 formatAddress_fields list.rel_refl)
  with rows show ?thesis by blast
qed

text \<open>The first page of two of the example store; the street of its first user is null.\<close>

theorem getUsers_addresses_witness:
  "getUsers None example_store 0 2 =
     (Resolved [formatAddress (example_user ''u1''), formatAddress (example_user ''u2'')], None) \<and>
   u_street (formatAddress (example_user ''u1'')) = Some [] \<and>
   u_city (formatAddress (example_user ''u1'')) = Some (lit ''Oslo'') \<and>
   u_state (formatAddress (example_user ''u1'')) = Some [] \<and>
   u_zipcode (formatAddress (example_user ''u1'')) = Some (lit ''0150'')"
proof -
  have run: "getUsers None example_store 0 2 =
     (Resolved [formatAddress (example_user ''u1''), formatAddress (example_user ''u2'')], None)"
    by (simp add: getUsers_def example_page)
  have norm: "normalize_field None = []" "normalize_field (Some (lit '' Oslo '')) = lit ''Oslo''"
      "normalize_field (Some []) = []" "normalize_field (Some (lit ''0150'')) = lit ''0150''"
    by (simp_all add: normalize_field_def js_trim_def isWhiteSpace_def lit_def)
  from getUsers_addresses [OF run] norm run show ?thesis
    by (simp add: example_page example_user_def)
qed




text \<open>
  C2, at \<^verbatim>\<open>GET /users?pageSize=0\<close>.  \<^verbatim>\<open>Number("0") || 4\<close> is 4, so the test
  \<^verbatim>\<open>pageSize < 1\<close> never sees the 0: the response is 200 with the first four users, not
  400.  A negative page size does reach the test and is answered with 400.
\<close>

theorem get_users_pageSize_zero:
  "get_users None db NaN (Num 0) =
     send 200 (UsersBody (map formatAddress (take 4 (users_table db)))) \<and>
   get_users None db NaN (Num 0) \<noteq> send 400 (MessageBody ''Invalid page number or page size'') \<and>
   get_users None db NaN (Num (- 1)) = send 400 (MessageBody ''Invalid page number or page size'')"
  by (simp add: get_users_def getUsers_None send_def)

section \<open>Listing posts\<close>

lemma get_posts_absent:
  "get_posts fault db None = send 400 (ErrorBody ''userId is required'')"
  by (simp add: get_posts_def)

lemma get_posts_present:
  "get_posts fault db (Some v) =
     (if toString v = [] then send 400 (ErrorBody ''userId is required'')
      else case fault of
             Some e \<Rightarrow> Unhandled e None
           | None \<Rightarrow> send 200 (PostsBody (filter (\<lambda>p. p_user_id p = toString v) (posts_table db))))"
  by (simp add: get_posts_def getPosts_def run_selectPostsTemplate_def split: option.splits)

text \<open>
  C7, as amended.  \<^verbatim>\<open>GET /posts\<close>: when \<^verbatim>\<open>userId\<close> is absent or its string form is empty,
  the response is 400.  Otherwise, when the statement runs, the response is 200 with the
  posts whose \<^verbatim>\<open>user_id\<close> is that string, in storage order; the body is the empty array when
  no post has that \<^verbatim>\<open>user_id\<close>, and the response does not depend on the users table, so a
  user without posts and a user that does not exist give the same answer.
\<close>

theorem get_posts_responses:
  "(qUserId = None \<or> (\<exists>v. qUserId = Some v \<and> toString v = []) \<longrightarrow>
      get_posts fault db qUserId = send 400 (ErrorBody ''userId is required'')) \<and>
   (\<forall>v. qUserId = Some v \<and> toString v \<noteq> [] \<longrightarrow>
      get_posts None db qUserId =
        send 200 (PostsBody (filter (\<lambda>p. p_user_id p = toString v) (posts_table db))) \<and>
      ((\<forall>p \<in> set (posts_table db). p_user_id p \<noteq> toString v) \<longrightarrow>
         get_posts None db qUserId = send 200 (PostsBody [])) \<and>
      get_posts None (db\<lparr>users_table := us\<rparr>) qUserId = get_posts None db qUserId)"
  by (auto simp: get_posts_absent get_posts_present filter_empty_conv)

text \<open>
  On the example store: no parameter, a user with a post, a user without posts, and an id no
  user has.
\<close>

theorem get_posts_responses_witness:
  "get_posts None example_store None = send 400 (ErrorBody ''userId is required'') \<and>
   get_posts None example_store (Some (QStr (lit ''u1''))) =
     send 200 (PostsBody [example_post ''p1'' ''u1'']) \<and>
   get_posts None example_store (Some (QStr (lit ''u3''))) = send 200 (PostsBody []) \<and>
   get_posts None example_store (Some (QStr (lit ''nobody''))) = send 200 (PostsBody [])"
proof -
  have a: "get_posts None example_store None = send 400 (ErrorBody ''userId is required'')"
    using get_posts_responses [of None None example_store] by simp
  have b: "get_posts None example_store (Some (QStr (lit ''u1''))) =
     send 200 (PostsBody [example_post ''p1'' ''u1''])"
    using get_posts_responses [of "Some (QStr (lit ''u1''))" None example_store]
    by (simp add: example_store_def example_post_def lit_def)
  have c: "get_posts None example_store (Some (QStr (lit ''u3''))) = send 200 (PostsBody [])"
    using get_posts_responses [of "Some (QStr (lit ''u3''))" None example_store]
    by (simp add: example_store_def example_post_def lit_def)
  have d: "get_posts None example_store (Some (QStr (lit ''nobody''))) = send 200 (PostsBody [])"
    using get_posts_responses [of "Some (QStr (lit ''nobody''))" None example_store]
    by (simp add: example_store_def example_post_def lit_def)
  from a b c d show ?thesis by simp
qed

text \<open>
  C7 as stated fails at \<^verbatim>\<open>GET /posts?userId=\<close>: the parameter is present, and the response
  is 400, not 200 with the posts of the user \<^verbatim>\<open>""\<close>.
\<close>

theorem get_posts_empty_userId:
  "Some (QStr []) \<noteq> None \<and>
   get_posts None example_store (Some (QStr [])) = send 400 (ErrorBody ''userId is required'') \<and>
   get_posts None example_store (Some (QStr [])) \<noteq>
     send 200 (PostsBody (filter (\<lambda>p. p_user_id p = []) (posts_table example_store)))"
  by (simp add: get_posts_present send_def)

section \<open>Creating a post\<close>

lemma createPost_Resolved:
  assumes "createPost env db u t b = (Resolved p, db')"
  shows "randomUUID env = Some (p_id p)"
    and "p = \<lparr>p_id = p_id p, p_user_id = u, p_title = t, p_body = b,
              p_created_at = toISOString env\<rparr>"
    and "db' = db\<lparr>posts_table := posts_table db @ [p]\<rparr>"
    and "insert_fault env = None"
    and "\<forall>q \<in> set (posts_table db). p_id q \<noteq> p_id p"
  using assms
  by (auto simp: createPost_def run_insertPostTemplate_def Let_def
           split: option.splits if_splits)

lemma createPost_users:
  "users_table (snd (createPost env db u t b)) = users_table db"
  by (simp add: createPost_def run_insertPostTemplate_def Let_def split: option.splits)

lemma createPost_users_eq:
  "createPost env db u t b = (r, db') \<Longrightarrow> users_table db' = users_table db"
  using createPost_users [of env db u t b] by simp

lemma trim_method_JStr: "trim_method (JStr s) = Inr (js_trim s)"
  by (simp add: trim_method_def)

lemma refused_iff:
  "absent_empty_or_not_string v \<longleftrightarrow> \<not> truthy v \<or> typeof v \<noteq> TString"
  by (cases v) (simp_all add: absent_empty_or_not_string_def)

lemma accepted_string:
  "\<not> absent_empty_or_not_string v \<Longrightarrow> v = JStr (string_of v) \<and> string_of v \<noteq> []"
  by (cases v) (simp_all add: absent_empty_or_not_string_def string_of_def)

lemma post_posts_strings:
  "T \<noteq> [] \<Longrightarrow> B \<noteq> [] \<Longrightarrow> U \<noteq> [] \<Longrightarrow>
   post_posts exists_fault env db \<lparr>title = JStr T, body = JStr B, userId = JStr U\<rparr> =
     (if js_trim T = []
      then (send 400 (ErrorBody ''Title cannot be empty or contain only whitespace''), db)
      else if js_trim B = []
      then (send 400 (ErrorBody ''Body cannot be empty or contain only whitespace''), db)
      else if js_trim U = []
      then (send 400 (ErrorBody ''User ID cannot be empty or contain only whitespace''), db)
      else
        (case userExists exists_fault db (js_trim U) of
           Rejected e \<Rightarrow> (send 500 (ErrorBody ''Internal server error''), db)
         | Resolved found \<Rightarrow>
             if \<not> found then (send 404 (ErrorBody ''User not found''), db)
             else
               (case createPost env db (js_trim U) (js_trim T) (js_trim B) of
                  (Rejected e, db') \<Rightarrow> (send 500 (ErrorBody ''Internal server error''), db')
                | (Resolved created, db') \<Rightarrow> (send 201 (PostBody created), db'))))"
  by (simp add: post_posts_def post_posts_try_def trim_method_JStr
      split: promise.splits prod.splits)

lemma post_posts_refused:
  assumes "absent_empty_or_not_string (title req) \<or> absent_empty_or_not_string (body req)
             \<or> absent_empty_or_not_string (userId req)"
  shows "\<exists>m. post_posts exists_fault env db req = (send 400 (ErrorBody m), db)"
  using assms unfolding refused_iff
  by (auto simp: post_posts_def post_posts_try_def)

lemma accepted_request:
  assumes "\<not> absent_empty_or_not_string (title req)"
    and "\<not> absent_empty_or_not_string (body req)"
    and "\<not> absent_empty_or_not_string (userId req)"
  obtains T B U where "req = \<lparr>title = JStr T, body = JStr B, userId = JStr U\<rparr>"
    and "T \<noteq> []" and "B \<noteq> []" and "U \<noteq> []"
proof -
  have "req = \<lparr>title = JStr (string_of (title req)), body = JStr (string_of (body req)),
      userId = JStr (string_of (userId req))\<rparr>"
    using assms accepted_string by (cases req) force
  with assms that accepted_string show thesis by blast
qed

lemma post_posts_users:
  "users_table (snd (post_posts exists_fault env db req)) = users_table db"
  by (auto simp: post_posts_def post_posts_try_def
      split: sum.splits promise.splits prod.splits dest: createPost_users_eq)

lemma post_posts_created:
  assumes "post_posts exists_fault env db req = (send 201 (PostBody p), db')"
  shows "\<exists>T B U. req = \<lparr>title = JStr T, body = JStr B, userId = JStr U\<rparr> \<and>
           js_trim T \<noteq> [] \<and> js_trim B \<noteq> [] \<and> js_trim U \<noteq> [] \<and>
           userExists exists_fault db (js_trim U) = Resolved True \<and>
           createPost env db (js_trim U) (js_trim T) (js_trim B) = (Resolved p, db')"
proof -
  have "\<not> (absent_empty_or_not_string (title req) \<or> absent_empty_or_not_string (body req)
              \<or> absent_empty_or_not_string (userId req))"
    using post_posts_refused [of req exists_fault env db] assms by auto
  then obtain T B U where
    req: "req = \<lparr>title = JStr T, body = JStr B, userId = JStr U\<rparr>"
    and ne: "T \<noteq> []" "B \<noteq> []" "U \<noteq> []"
    using accepted_request by blast
  from assms have "js_trim T \<noteq> [] \<and> js_trim B \<noteq> [] \<and> js_trim U \<noteq> [] \<and>
           userExists exists_fault db (js_trim U) = Resolved True \<and>
           createPost env db (js_trim U) (js_trim T) (js_trim B) = (Resolved p, db')"
    unfolding req
    by (auto simp: post_posts_strings ne split: if_splits promise.splits prod.splits)
  with req show ?thesis by blast
qed

text \<open>
  The success path is taken: with fields that are not empty after trimming, an existing user,
  no fault and an id that no post has yet, \<^verbatim>\<open>POST /posts\<close> answers 201 and appends the post.
\<close>

lemma post_posts_creates:
  assumes "js_trim T \<noteq> []" and "js_trim B \<noteq> []" and "js_trim U \<noteq> []"
    and "\<exists>u \<in> set (users_table db). u_id u = js_trim U"
    and "randomUUID env = Some i" and "insert_fault env = None"
    and "\<forall>q \<in> set (posts_table db). p_id q \<noteq> i"
  shows "post_posts None env db \<lparr>title = JStr T, body = JStr B, userId = JStr U\<rparr> =
     (send 201 (PostBody \<lparr>p_id = i, p_user_id = js_trim U, p_title = js_trim T,
                          p_body = js_trim B, p_created_at = toISOString env\<rparr>),
      db\<lparr>posts_table := posts_table db @
           [\<lparr>p_id = i, p_user_id = js_trim U, p_title = js_trim T,
             p_body = js_trim B, p_created_at = toISOString env\<rparr>]\<rparr>)"
proof -
  from assms(1-3) have ne: "T \<noteq> []" "B \<noteq> []" "U \<noteq> []"
    using js_trim_Nil by auto
  from assms(4) have ex: "userExists None db (js_trim U) = Resolved True"
    by (auto simp: userExists_def filter_empty_conv)
  from assms(5-7) have cr: "createPost env db (js_trim U) (js_trim T) (js_trim B) =
     (Resolved \<lparr>p_id = i, p_user_id = js_trim U, p_title = js_trim T,
                          p_body = js_trim B, p_created_at = toISOString env\<rparr>,
      db\<lparr>posts_table := posts_table db @
           [\<lparr>p_id = i, p_user_id = js_trim U, p_title = js_trim T,
             p_body = js_trim B, p_created_at = toISOString env\<rparr>]\<rparr>)"
    by (simp add: createPost_def run_insertPostTemplate_def Let_def)
  show ?thesis
    by (simp add: post_posts_strings ne assms(1-3) ex cr)
qed

lemma example_userExists:
  "userExists None example_store (lit ''u1'') = Resolved True"
  "userExists None example_store (lit ''nobody'') = Resolved False"
  "userExists None twin_store (lit ''u1'') = Resolved True"
  "userExists None twin_store (lit '' u1'') = Resolved True"
  by (simp_all add: userExists_def example_store_def twin_store_def example_user_def lit_def)

lemma example_createPost:
  "createPost example_env example_store (lit ''u1'') (lit ''Hi'') (lit ''World'') =
     (Resolved (example_created ''u1'' ''Hi'' ''World''),
      example_store\<lparr>posts_table :=
        [example_post ''p1'' ''u1'', example_post ''p2'' ''u2'',
         example_created ''u1'' ''Hi'' ''World'']\<rparr>)"
  "createPost example_env twin_store (lit ''u1'') (lit ''Hi'') (lit ''World'') =
     (Resolved (example_created ''u1'' ''Hi'' ''World''),
      twin_store\<lparr>posts_table := [example_created ''u1'' ''Hi'' ''World'']\<rparr>)"
  by (simp_all add: createPost_def run_insertPostTemplate_def example_env_def example_store_def
        twin_store_def example_post_def example_created_def lit_def Let_def)

lemma example_post_posts:
  "post_posts None example_env example_store
     (example_request (JStr (lit '' Hi '')) (JStr (lit ''World'')) (JStr (lit ''u1''))) =
     (send 201 (PostBody (example_created ''u1'' ''Hi'' ''World'')),
      example_store\<lparr>posts_table :=
        [example_post ''p1'' ''u1'', example_post ''p2'' ''u2'',
         example_created ''u1'' ''Hi'' ''World'']\<rparr>)"
  "post_posts None example_env twin_store
     (example_request (JStr (lit ''Hi'')) (JStr (lit ''World'')) (JStr (lit '' u1''))) =
     (send 201 (PostBody (example_created ''u1'' ''Hi'' ''World'')),
      twin_store\<lparr>posts_table := [example_created ''u1'' ''Hi'' ''World'']\<rparr>)"
  by (simp_all add: example_request_def post_posts_strings lits_nonempty trims
        example_userExists example_createPost)

text \<open>
  C1, as amended.  \<^verbatim>\<open>POST /posts\<close> runs the pipeline in order and stops at the first
  failure: a title that is absent, not a string or the empty string is answered with 400
  "Title is required and must be a string", then the same for the body and the user id; then
  the three are trimmed, and a value that is empty after trimming is answered with 400 and its
  "cannot be empty or contain only whitespace" message, title first, then body, then user id;
  then 404 "User not found" when \<open>userExists\<close> of the trimmed user id is false; then
  \<open>createPost\<close> with the trimmed values and 201 with the created post.  When \<open>userExists\<close> or
  \<open>createPost\<close> rejects, the response is 500 "Internal server error".
\<close>

theorem post_posts_pipeline:
  "post_posts exists_fault env db req =
     spec_post_posts absent_empty_or_not_string exists_fault env db req"
proof (cases "absent_empty_or_not_string (title req) \<or> absent_empty_or_not_string (body req)
              \<or> absent_empty_or_not_string (userId req)")
  case True
  then show ?thesis
    unfolding refused_iff
    by (auto simp: post_posts_def post_posts_try_def spec_post_posts_def)
next
  case False
  then obtain T B U where
    req: "req = \<lparr>title = JStr T, body = JStr B, userId = JStr U\<rparr>"
    and ne: "T \<noteq> []" "B \<noteq> []" "U \<noteq> []"
    using accepted_request by blast
  show ?thesis
    unfolding req
    by (simp add: post_posts_strings ne spec_post_posts_def refused_iff string_of_def Let_def
        split: promise.splits prod.splits)
qed

text \<open>
  The pipeline on the example store: a created post, a title that is a number, a body that
  is absent, an empty user id (before the whitespace-only body is seen), a whitespace-only
  body, an unknown user, and a fault of the existence check.
\<close>

theorem post_posts_pipeline_witness:
  "post_posts None example_env example_store
     (example_request (JStr (lit '' Hi '')) (JStr (lit ''World'')) (JStr (lit ''u1''))) =
     (send 201 (PostBody (example_created ''u1'' ''Hi'' ''World'')),
      example_store\<lparr>posts_table :=
        [example_post ''p1'' ''u1'', example_post ''p2'' ''u2'',
         example_created ''u1'' ''Hi'' ''World'']\<rparr>) \<and>
   post_posts None example_env example_store
     (example_request (JNum 7) (JStr (lit ''World'')) (JStr (lit ''u1''))) =
     (send 400 (ErrorBody ''Title is required and must be a string''), example_store) \<and>
   post_posts None example_env example_store
     (example_request (JStr (lit ''Hi'')) JUndefined (JStr (lit ''u1''))) =
     (send 400 (ErrorBody ''Body is required and must be a string''), example_store) \<and>
   post_posts None example_env example_store
     (example_request (JStr (lit ''Hi'')) (JStr (lit ''   '')) (JStr [])) =
     (send 400 (ErrorBody ''User ID is required and must be a string''), example_store) \<and>
   post_posts None example_env example_store
     (example_request (JStr (lit ''Hi'')) (JStr (lit ''   '')) (JStr (lit ''   ''))) =
     (send 400 (ErrorBody ''Body cannot be empty or contain only whitespace''), example_store) \<and>
   post_posts None example_env example_store
     (example_request (JStr (lit ''Hi'')) (JStr (lit ''World'')) (JStr (lit ''nobody''))) =
     (send 404 (ErrorBody ''User not found''), example_store) \<and>
   post_posts (Some (SqliteError ''SQLITE_BUSY'')) example_env example_store
     (example_request (JStr (lit ''Hi'')) (JStr (lit ''World'')) (JStr (lit ''u1''))) =
     (send 500 (ErrorBody ''Internal server error''), example_store)"
proof -
  note spec = spec_post_posts_def absent_empty_or_not_string_def string_of_def
    example_request_def lits_nonempty trims example_userExists example_createPost
  have a: "post_posts None example_env example_store
     (example_request (JStr (lit '' Hi '')) (JStr (lit ''World'')) (JStr (lit ''u1''))) =
     (send 201 (PostBody (example_created ''u1'' ''Hi'' ''World'')),
      example_store\<lparr>posts_table :=
        [example_post ''p1'' ''u1'', example_post ''p2'' ''u2'',
         example_created ''u1'' ''Hi'' ''World'']\<rparr>)"
    by (simp add: post_posts_pipeline spec)
  have b: "post_posts None example_env example_store
     (example_request (JNum 7) (JStr (lit ''World'')) (JStr (lit ''u1''))) =
     (send 400 (ErrorBody ''Title is required and must be a string''), example_store)"
    by (simp add: post_posts_pipeline spec)
  have c: "post_posts None example_env example_store
     (example_request (JStr (lit ''Hi'')) JUndefined (JStr (lit ''u1''))) =
     (send 400 (ErrorBody ''Body is required and must be a string''), example_store)"
    by (simp add: post_posts_pipeline spec)
  have d: "post_posts None example_env example_store
     (example_request (JStr (lit ''Hi'')) (JStr (lit ''   '')) (JStr [])) =
     (send 400 (ErrorBody ''User ID is required and must be a string''), example_store)"
    by (simp add: post_posts_pipeline spec)
  have e: "post_posts None example_env example_store
     (example_request (JStr (lit ''Hi'')) (JStr (lit ''   '')) (JStr (lit ''   ''))) =
     (send 400 (ErrorBody ''Body cannot be empty or contain only whitespace''), example_store)"
    by (simp add: post_posts_pipeline spec)
  have f: "post_posts None example_env example_store
     (example_request (JStr (lit ''Hi'')) (JStr (lit ''World'')) (JStr (lit ''nobody''))) =
     (send 404 (ErrorBody ''User not found''), example_store)"
    by (simp add: post_posts_pipeline spec)
  have g: "post_posts (Some (SqliteError ''SQLITE_BUSY'')) example_env example_store
     (example_request (JStr (lit ''Hi'')) (JStr (lit ''World'')) (JStr (lit ''u1''))) =
     (send 500 (ErrorBody ''Internal server error''), example_store)"
    by (simp add: post_posts_pipeline spec userExists_def)
  from a b c d e f g show ?thesis by simp
qed

text \<open>
  C1 as stated fails at an empty title: it is present and is a string, so the specification's
  wording reaches the trimming step and answers "Title cannot be empty or contain only
  whitespace"; the source answers "Title is required and must be a string".
\<close>

theorem post_posts_empty_title:
  "post_posts None example_env example_store
     (example_request (JStr []) (JStr (lit ''World'')) (JStr (lit ''u1''))) =
     (send 400 (ErrorBody ''Title is required and must be a string''), example_store) \<and>
   spec_post_posts absent_or_not_string None example_env example_store
     (example_request (JStr []) (JStr (lit ''World'')) (JStr (lit ''u1''))) =
     (send 400 (ErrorBody ''Title cannot be empty or contain only whitespace''), example_store)"
  by (simp add: post_posts_def post_posts_try_def spec_post_posts_def absent_or_not_string_def
        string_of_def example_request_def js_trim_Nil)

text \<open>
  C8, as amended.  When \<^verbatim>\<open>POST /posts\<close> answers 201 with a post, the request's user id is a
  string \<open>U\<close>, the post belongs to the trimmed \<open>U\<close>, and a following
  \<^verbatim>\<open>GET /posts?userId=\<close> with the trimmed \<open>U\<close> (which is \<open>U\<close> itself when \<open>U\<close> has no
  whitespace around it) answers 200 with a list that contains the post; the post's id is the
  generated one and its \<^verbatim>\<open>created_at\<close> the timestamp taken at creation.
\<close>

theorem post_then_get:
  assumes "post_posts exists_fault env db req = (send 201 (PostBody p), db')"
  shows "\<exists>U posts. userId req = JStr U \<and> p_user_id p = js_trim U \<and>
           get_posts None db' (Some (QStr (js_trim U))) = send 200 (PostsBody posts) \<and>
           p \<in> set posts \<and>
           randomUUID env = Some (p_id p) \<and> p_created_at p = toISOString env"
proof -
  from post_posts_created [OF assms] obtain T B U where
    req: "req = \<lparr>title = JStr T, body = JStr B, userId = JStr U\<rparr>"
    and ne: "js_trim U \<noteq> []"
    and cr: "createPost env db (js_trim U) (js_trim T) (js_trim B) = (Resolved p, db')"
    by blast
  from createPost_Resolved(2) [OF cr] have uid: "p_user_id p = js_trim U"
    and at: "p_created_at p = toISOString env"
    by (metis post.select_convs(2), metis post.select_convs(5))
  from createPost_Resolved(3) [OF cr] have "p \<in> set (posts_table db')"
    by simp
  with uid have "p \<in> set (filter (\<lambda>q. p_user_id q = js_trim U) (posts_table db'))"
    by simp
  moreover have "get_posts None db' (Some (QStr (js_trim U))) =
      send 200 (PostsBody (filter (\<lambda>q. p_user_id q = js_trim U) (posts_table db')))"
    by (simp add: get_posts_present ne)
  ultimately show ?thesis
    using req uid at createPost_Resolved(1) [OF cr] by auto
qed

text \<open>A post created for the first user of the example store, then that user's posts.\<close>

theorem post_then_get_witness:
  "post_posts None example_env example_store
     (example_request (JStr (lit '' Hi '')) (JStr (lit ''World'')) (JStr (lit ''u1''))) =
     (send 201 (PostBody (example_created ''u1'' ''Hi'' ''World'')),
      example_store\<lparr>posts_table :=
        [example_post ''p1'' ''u1'', example_post ''p2'' ''u2'',
         example_created ''u1'' ''Hi'' ''World'']\<rparr>) \<and>
   get_posts None
     (example_store\<lparr>posts_table :=
        [example_post ''p1'' ''u1'', example_post ''p2'' ''u2'',
         example_created ''u1'' ''Hi'' ''World'']\<rparr>)
     (Some (QStr (lit ''u1''))) =
     send 200 (PostsBody [example_post ''p1'' ''u1'', example_created ''u1'' ''Hi'' ''World''])"
proof -
  have "get_posts None
     (example_store\<lparr>posts_table :=
        [example_post ''p1'' ''u1'', example_post ''p2'' ''u2'',
         example_created ''u1'' ''Hi'' ''World'']\<rparr>)
     (Some (QStr (lit ''u1''))) =
     send 200 (PostsBody [example_post ''p1'' ''u1'', example_created ''u1'' ''Hi'' ''World''])"
    using post_then_get [OF example_post_posts(1)]
    by (simp add: example_request_def trims get_posts_present lits_nonempty
          example_post_def example_created_def lit_def)
  with example_post_posts(1) show ?thesis by simp
qed

text \<open>
  C8 as stated fails for a user id with whitespace around it: with the users \<^verbatim>\<open>" u1"\<close> and
  \<^verbatim>\<open>"u1"\<close>, a post created with the user id \<^verbatim>\<open>" u1"\<close> is stored for \<^verbatim>\<open>"u1"\<close>, and
  \<^verbatim>\<open>GET /posts?userId=\<close> with \<^verbatim>\<open>" u1"\<close> answers the empty list.
\<close>

theorem post_then_get_untrimmed:
  "userExists None twin_store (lit '' u1'') = Resolved True \<and>
   post_posts None example_env twin_store
     (example_request (JStr (lit ''Hi'')) (JStr (lit ''World'')) (JStr (lit '' u1''))) =
     (send 201 (PostBody (example_created ''u1'' ''Hi'' ''World'')),
      twin_store\<lparr>posts_table := [example_created ''u1'' ''Hi'' ''World'']\<rparr>) \<and>
   get_posts None (twin_store\<lparr>posts_table := [example_created ''u1'' ''Hi'' ''World'']\<rparr>)
     (Some (QStr (lit '' u1''))) = send 200 (PostsBody [])"
  by (simp add: example_userExists example_post_posts get_posts_present lits_nonempty
        example_created_def) (simp add: lit_def)

section \<open>Storage faults and the users table\<close>

text \<open>
  C9, at a storage fault \<open>e\<close>.  The three \<^verbatim>\<open>GET\<close> handlers have no \<^verbatim>\<open>try\<close>: their promise
  rejects with the driver's error and they send no response (in \<open>getUsers\<close> and
  \<open>getUsersCount\<close> the callback throws a \<^verbatim>\<open>TypeError\<close> besides).  \<^verbatim>\<open>POST /posts\<close> and
  \<^verbatim>\<open>DELETE /posts/:id\<close> catch the rejection and answer 500 "Internal server error".
\<close>

theorem storage_fault_responses:
  "get_posts (Some e) db (Some (QStr (lit ''u1''))) = Unhandled e None \<and>
   get_users (Some e) db NaN NaN = Unhandled e (Some TypeError) \<and>
   get_users_count (Some e) db = Unhandled e (Some TypeError) \<and>
   fst (post_posts None (env\<lparr>randomUUID := Some i, insert_fault := Some e\<rparr>) example_store
          \<lparr>title = JStr (lit ''Hi''), body = JStr (lit ''World''), userId = JStr (lit ''u1'')\<rparr>) =
     send 500 (ErrorBody ''Internal server error'') \<and>
   fst (post_posts (Some e) env db
          \<lparr>title = JStr (lit ''Hi''), body = JStr (lit ''World''), userId = JStr (lit ''u1'')\<rparr>) =
     send 500 (ErrorBody ''Internal server error'') \<and>
   fst (delete_posts (Some e) db (lit ''p1'')) = send 500 (ErrorBody ''Internal server error'')"
proof -
  have t: "js_trim (lit ''Hi'') = lit ''Hi''" "js_trim (lit ''World'') = lit ''World''"
      "js_trim (lit ''u1'') = lit ''u1''" "js_trim (lit ''p1'') = lit ''p1''"
    by (simp_all add: js_trim_def isWhiteSpace_def lit_def)
  have n: "lit ''Hi'' \<noteq> []" "lit ''World'' \<noteq> []" "lit ''u1'' \<noteq> []" "lit ''p1'' \<noteq> []"
    by (simp_all add: lit_def)
  have a: "get_posts (Some e) db (Some (QStr (lit ''u1''))) = Unhandled e None"
    by (simp add: get_posts_present n)
  have b: "get_users (Some e) db NaN NaN = Unhandled e (Some TypeError)"
    by (simp add: get_users_def getUsers_def)
  have c: "get_users_count (Some e) db = Unhandled e (Some TypeError)"
    by (simp add: get_users_count_def getUsersCount_def)
  have ex: "userExists None example_store (lit ''u1'') = Resolved True"
    by (simp add: userExists_def example_store_def example_user_def lit_def)
  have d: "fst (post_posts None (env\<lparr>randomUUID := Some i, insert_fault := Some e\<rparr>) example_store
          \<lparr>title = JStr (lit ''Hi''), body = JStr (lit ''World''), userId = JStr (lit ''u1'')\<rparr>) =
     send 500 (ErrorBody ''Internal server error'')"
    by (simp add: post_posts_def post_posts_try_def trim_method_def t n ex createPost_def)
  have f: "fst (post_posts (Some e) env db
          \<lparr>title = JStr (lit ''Hi''), body = JStr (lit ''World''), userId = JStr (lit ''u1'')\<rparr>) =
     send 500 (ErrorBody ''Internal server error'')"
    by (simp add: post_posts_def post_posts_try_def trim_method_def t n userExists_def)
  have g: "fst (delete_posts (Some e) db (lit ''p1'')) = send 500 (ErrorBody ''Internal server error'')"
    by (simp add: delete_posts_nonempty t n deletePost_Some)
  from a b c d f g show ?thesis by simp
qed

text \<open>
  C10.  \<open>deletePost\<close> leaves the users table as it was and keeps, in their order, the posts
  whose id differs from the one given.  \<open>createPost\<close> and the two handlers that write,
  \<^verbatim>\<open>POST /posts\<close> and \<^verbatim>\<open>DELETE /posts/:id\<close>, leave the users table as it was too.  The other
  operations (\<open>getUsers\<close>, \<open>getUsersCount\<close>, \<open>userExists\<close>, \<open>getPosts\<close> and the three
  \<^verbatim>\<open>GET\<close> handlers) only read the store.
\<close>

theorem users_table_untouched:
  "users_table (snd (deletePost fault db postId)) = users_table db \<and>
   filter (\<lambda>p. p_id p \<noteq> postId) (posts_table (snd (deletePost fault db postId))) =
     filter (\<lambda>p. p_id p \<noteq> postId) (posts_table db) \<and>
   users_table (snd (createPost env db u t b)) = users_table db \<and>
   users_table (snd (post_posts exists_fault env db req)) = users_table db \<and>
   users_table (snd (delete_posts fault db i)) = users_table db"
  by (simp add: deletePost_frame createPost_users post_posts_users delete_posts_users)

end
